theory Spec2Isabelle
  imports Complex_Main "HOL-Library.Word"
begin

section \<open>JavaScript values shared by both hooks\<close>

text \<open>
  A JavaScript string is a sequence of UTF-16 code units. Key names, which the
  source only compares with ASCII literals, are kept as HOL strings.
\<close>

type_synonym code_unit = "16 word"
type_synonym jsstring = "code_unit list"

definition ascii :: "string \<Rightarrow> jsstring" where
  "ascii s = map (\<lambda>c. of_nat (of_char c)) s"

text \<open>The exceptions the modelled code can raise.\<close>

datatype error = TypeError | RangeError

section \<open>useSpinButton\<close>

subsection \<open>Props, events and observable effects\<close>

text \<open>
  \<open>ValueBase<string | number>\<close>: the value is absent, a string or a number. Numbers are
  kept abstract (\<open>'n\<close>); HOL equality on \<open>'n\<close> stands for \<open>Object.is\<close>.
\<close>

datatype 'n jsvalue = Undefined | Str jsstring | Num 'n

text \<open>
  \<open>SpinButtonProps\<close>. The host's callbacks are opaque function values of type \<open>'f\<close>;
  an optional callback that was not supplied is \<open>None\<close>. The optional booleans are
  \<open>False\<close> when absent. The field \<open>valueProp\<close> is the source's \<open>value\<close>.
\<close>

record ('n, 'f) SpinButtonProps =
  valueProp :: "'n jsvalue"
  textValue :: "jsstring option"
  minValue :: "'n option"
  maxValue :: "'n option"
  isDisabled :: bool
  isReadOnly :: bool
  isRequired :: bool
  onValidate :: "'f option"
  onIncrement :: "'f option"
  onIncrementPage :: "'f option"
  onDecrement :: "'f option"
  onDecrementPage :: "'f option"
  onDecrementToMin :: "'f option"
  onIncrementToMax :: "'f option"

record KeyboardEvent =
  key :: string
  ctrlKey :: bool
  metaKey :: bool
  shiftKey :: bool
  altKey :: bool

text \<open>
  What a handler does to its collaborators, in order: \<open>e.preventDefault()\<close>, a call of
  a host callback, \<open>inputRef.current.select()\<close>, \<open>announce(text)\<close>.
\<close>

datatype 'f effect = PreventDefault | Call 'f | SelectInput | Announce jsstring

text \<open>
  A handler's outcome: the effects it performed, and the exception it ended with, if
  any (the effects before a \<open>throw\<close> have happened).
\<close>

type_synonym 'f outcome = "'f effect list \<times> error option"

text \<open>
  Calling an optional callback \<open>cb()\<close> with no guard: calling \<open>undefined\<close> raises a
  \<open>TypeError\<close>.
\<close>

fun invoke :: "'f option \<Rightarrow> 'f outcome" where
  "invoke None = ([], Some TypeError)"
| "invoke (Some f) = ([Call f], None)"

text \<open>\<open>e.preventDefault(); cb();\<close>\<close>

definition preventThenCall :: "'f option \<Rightarrow> 'f outcome" where
  "preventThenCall cb = (PreventDefault # fst (invoke cb), snd (invoke cb))"

text \<open>\<open>if (cb) { e.preventDefault(); cb(); }\<close>\<close>

definition guarded :: "'f option \<Rightarrow> 'f outcome" where
  "guarded cb = (case cb of None \<Rightarrow> ([], None) | Some f \<Rightarrow> preventThenCall (Some f))"

subsection \<open>Keyboard dispatch\<close>

text \<open>
  \<open>onKeyDown\<close>, branch by branch. A \<open>PageUp\<close> whose page callback is absent falls
  through into the \<open>ArrowUp\<close>/\<open>Up\<close> case, and \<open>PageDown\<close> likewise.
\<close>

definition onKeyDown :: "('n, 'f) SpinButtonProps \<Rightarrow> KeyboardEvent \<Rightarrow> 'f outcome" where
  "onKeyDown props e =
    (if ctrlKey e \<or> metaKey e \<or> shiftKey e \<or> altKey e \<or> isReadOnly props then ([], None)
     else if key e = ''Enter'' then preventThenCall (onValidate props)
     else if key e = ''PageUp'' \<and> onIncrementPage props \<noteq> None
       then preventThenCall (onIncrementPage props)
     else if key e = ''PageUp'' \<or> key e = ''ArrowUp'' \<or> key e = ''Up''
       then guarded (onIncrement props)
     else if key e = ''PageDown'' \<and> onDecrementPage props \<noteq> None
       then preventThenCall (onDecrementPage props)
     else if key e = ''PageDown'' \<or> key e = ''ArrowDown'' \<or> key e = ''Down''
       then guarded (onDecrement props)
     else if key e = ''Home''
       then (if minValue props \<noteq> None then guarded (onDecrementToMin props) else ([], None))
     else if key e = ''End''
       then (if maxValue props \<noteq> None then guarded (onIncrementToMax props) else ([], None))
     else ([], None))"

subsection \<open>Accessibility attributes\<close>

text \<open>
  The attributes of \<open>spinButtonProps\<close>; \<open>null\<close> is \<open>None\<close>. \<open>x || null\<close> is \<open>null\<close> for a
  false flag and for an empty or absent text.
\<close>

record 'n ariaAttributes =
  role :: string
  aria_valuenow :: "'n option"
  aria_valuetext :: "jsstring option"
  aria_valuemin :: "'n option"
  aria_valuemax :: "'n option"
  aria_disabled :: "bool option"
  aria_readonly :: "bool option"
  aria_required :: "bool option"

definition spinButtonProps :: "('n, 'f) SpinButtonProps \<Rightarrow> 'n ariaAttributes" where
  "spinButtonProps p =
    \<lparr>role = ''spinbutton'',
     aria_valuenow = (case valueProp p of Num n \<Rightarrow> Some n | _ \<Rightarrow> None),
     aria_valuetext = (case textValue p of Some t \<Rightarrow> if t \<noteq> [] then Some t else None
                       | None \<Rightarrow> None),
     aria_valuemin = minValue p,
     aria_valuemax = maxValue p,
     aria_disabled = (if isDisabled p then Some True else None),
     aria_readonly = (if isReadOnly p then Some True else None),
     aria_required = (if isRequired p then Some True else None)\<rparr>"

subsection \<open>The hook instance: refs, pending timeouts, current props\<close>

datatype direction = Increment | Decrement

text \<open>
  A timeout scheduled by \<open>setTimeout\<close> and not yet fired or cleared. Its callback is
  the closure \<open>() => onIncrementPressStart(60)\<close> (or the decrement one, with 75); the
  closure belongs to the \<open>useCallback\<close> value that armed it, so it keeps calling the
  \<open>onIncrement\<close> of that render: \<open>callee\<close>.
\<close>

record 'f timer =
  tid :: nat
  delay :: nat
  dir :: direction
  callee :: "'f option"

text \<open>
  One mounted instance of the hook: the ref \<open>_async\<close> (one ref, used by both
  directions), the ref \<open>isFocused\<close>, the props of the last render, whether \<open>inputRef\<close>
  points to an input element, and the environment's pending timeouts of this instance
  with the next fresh handle. Handles are positive, hence truthy.
\<close>

record ('n, 'f) hookState =
  props :: "('n, 'f) SpinButtonProps"
  inputRef :: bool
  async :: "nat option"
  isFocused :: bool
  timers :: "'f timer list"
  nextId :: nat

definition mount :: "('n, 'f) SpinButtonProps \<Rightarrow> bool \<Rightarrow> ('n, 'f) hookState" where
  "mount p ref = \<lparr>props = p, inputRef = ref, async = None, isFocused = False,
     timers = [], nextId = 1\<rparr>"

definition setTimeout ::
  "direction \<Rightarrow> 'f option \<Rightarrow> nat \<Rightarrow> ('n, 'f) hookState \<Rightarrow> nat \<times> ('n, 'f) hookState" where
  "setTimeout d cb ms s =
    (nextId s,
     s\<lparr>timers := timers s @ [\<lparr>tid = nextId s, delay = ms, dir = d, callee = cb\<rparr>],
       nextId := Suc (nextId s)\<rparr>)"

definition clearTimeout :: "nat \<Rightarrow> ('n, 'f) hookState \<Rightarrow> ('n, 'f) hookState" where
  "clearTimeout h s = s\<lparr>timers := filter (\<lambda>t. tid t \<noteq> h) (timers s)\<rparr>"

subsection \<open>Press and hold\<close>

text \<open>
  \<open>onIncrementPressStart(initialStepDelay)\<close>, with the \<open>onIncrement\<close> of its closure:
  the call is not guarded, then the timeout is armed and its handle stored.
\<close>

definition onIncrementPressStart ::
  "'f option \<Rightarrow> nat \<Rightarrow> ('n, 'f) hookState \<Rightarrow> 'f outcome \<times> ('n, 'f) hookState" where
  "onIncrementPressStart cb initialStepDelay s =
    (case cb of
       None \<Rightarrow> (([], Some TypeError), s)
     | Some f \<Rightarrow>
         (let (h, s') = setTimeout Increment cb initialStepDelay s
          in (([Call f], None), s'\<lparr>async := Some h\<rparr>)))"

definition onIncrementPressEnd :: "('n, 'f) hookState \<Rightarrow> ('n, 'f) hookState" where
  "onIncrementPressEnd s = (case async s of None \<Rightarrow> s | Some h \<Rightarrow> clearTimeout h s)"

definition onDecrementPressStart ::
  "'f option \<Rightarrow> nat \<Rightarrow> ('n, 'f) hookState \<Rightarrow> 'f outcome \<times> ('n, 'f) hookState" where
  "onDecrementPressStart cb initialStepDelay s =
    (case cb of
       None \<Rightarrow> (([], Some TypeError), s)
     | Some f \<Rightarrow>
         (let (h, s') = setTimeout Decrement cb initialStepDelay s
          in (([Call f], None), s'\<lparr>async := Some h\<rparr>)))"

definition onDecrementPressEnd :: "('n, 'f) hookState \<Rightarrow> ('n, 'f) hookState" where
  "onDecrementPressEnd s = (case async s of None \<Rightarrow> s | Some h \<Rightarrow> clearTimeout h s)"

text \<open>
  A pending timeout fires: it leaves the environment's queue and runs its closure.
  A handle that is not pending (never armed, already fired, or cleared) runs nothing.
\<close>

definition fire :: "nat \<Rightarrow> ('n, 'f) hookState \<Rightarrow> 'f outcome \<times> ('n, 'f) hookState" where
  "fire h s =
    (case find (\<lambda>t. tid t = h) (timers s) of
       None \<Rightarrow> (([], None), s)
     | Some t \<Rightarrow>
         (case dir t of
            Increment \<Rightarrow> onIncrementPressStart (callee t) 60 (clearTimeout h s)
          | Decrement \<Rightarrow> onDecrementPressStart (callee t) 75 (clearTimeout h s)))"

subsection \<open>Focus, blur and the announcement effect\<close>

text \<open>\<open>`${value}`\<close>; the rendering of a number is the parameter \<open>numberToString\<close>.\<close>

fun template :: "('n \<Rightarrow> jsstring) \<Rightarrow> 'n jsvalue \<Rightarrow> jsstring" where
  "template numberToString Undefined = ascii ''undefined''"
| "template numberToString (Str s) = s"
| "template numberToString (Num n) = numberToString n"

text \<open>\<open>textValue || `${value}`\<close>: an absent or empty \<open>textValue\<close> is falsy.\<close>

definition announced :: "('n \<Rightarrow> jsstring) \<Rightarrow> ('n, 'f) SpinButtonProps \<Rightarrow> jsstring" where
  "announced numberToString p =
    (case textValue p of
       Some t \<Rightarrow> if t \<noteq> [] then t else template numberToString (valueProp p)
     | None \<Rightarrow> template numberToString (valueProp p))"

definition onFocus :: "('n, 'f) hookState \<Rightarrow> 'f outcome \<times> ('n, 'f) hookState" where
  "onFocus s =
    ((if inputRef s then ([SelectInput], None) else ([], Some TypeError)),
     s\<lparr>isFocused := True\<rparr>)"

definition onBlur :: "('n, 'f) hookState \<Rightarrow> 'f outcome \<times> ('n, 'f) hookState" where
  "onBlur s = (invoke (onValidate (props s)), s\<lparr>isFocused := False\<rparr>)"

text \<open>
  A render with new props. The effect \<open>useEffect(..., [textValue, value])\<close> runs after
  it when one of the two dependencies differs from the previous render's. The first
  render is \<open>mount\<close>: \<open>isFocused\<close> starts false, so its effect announces nothing.
\<close>

definition render ::
  "('n \<Rightarrow> jsstring) \<Rightarrow> ('n, 'f) SpinButtonProps \<Rightarrow> ('n, 'f) hookState
    \<Rightarrow> 'f outcome \<times> ('n, 'f) hookState" where
  "render numberToString p s =
    ((if (textValue p, valueProp p) \<noteq> (textValue (props s), valueProp (props s))
         \<and> isFocused s
      then ([Announce (announced numberToString p)], None) else ([], None)),
     s\<lparr>props := p\<rparr>)"

subsection \<open>Events\<close>

text \<open>
  Everything that can happen to a mounted instance. The press handlers returned by a
  render are \<open>() => onIncrementPressStart(400)\<close> and its decrement twin. The hook
  registers no cleanup, so unmounting runs none of its code and leaves the pending
  timeouts in the environment.
\<close>

datatype ('n, 'f) event =
    Render "('n, 'f) SpinButtonProps"
  | KeyDown KeyboardEvent
  | Focus
  | Blur
  | IncrementPressStart
  | IncrementPressEnd
  | DecrementPressStart
  | DecrementPressEnd
  | TimerFire nat
  | Unmount

fun step ::
  "('n \<Rightarrow> jsstring) \<Rightarrow> ('n, 'f) hookState \<Rightarrow> ('n, 'f) event
    \<Rightarrow> 'f outcome \<times> ('n, 'f) hookState" where
  "step ts s (Render p) = render ts p s"
| "step ts s (KeyDown e) = (onKeyDown (props s) e, s)"
| "step ts s Focus = onFocus s"
| "step ts s Blur = onBlur s"
| "step ts s IncrementPressStart = onIncrementPressStart (onIncrement (props s)) 400 s"
| "step ts s IncrementPressEnd = (([], None), onIncrementPressEnd s)"
| "step ts s DecrementPressStart = onDecrementPressStart (onDecrement (props s)) 400 s"
| "step ts s DecrementPressEnd = (([], None), onDecrementPressEnd s)"
| "step ts s (TimerFire h) = fire h s"
| "step ts s Unmount = (([], None), s)"

text \<open>
  A sequence of events, each handled to completion before the next. The log keeps
  every handler's outcome, in order; an exception ends its handler only.
\<close>

fun run ::
  "('n \<Rightarrow> jsstring) \<Rightarrow> ('n, 'f) hookState \<Rightarrow> ('n, 'f) event list
    \<Rightarrow> 'f outcome list \<times> ('n, 'f) hookState" where
  "run ts s [] = ([], s)"
| "run ts s (ev # evs) =
    (let (out, s') = step ts s ev; (outs, s'') = run ts s' evs in (out # outs, s''))"

text \<open>The host callbacks called during a run, in order.\<close>

fun calls :: "'f outcome list \<Rightarrow> 'f list" where
  "calls [] = []"
| "calls ((effs, err) # outs) = [f. Call f \<leftarrow> effs] @ calls outs"

section \<open>useNumberParser\<close>

subsection \<open>Numbers and strings of the language\<close>

text \<open>
  The result of a numeric conversion. \<open>Finite q\<close> stands for the binary64 number nearest
  to the rational \<open>q\<close>: rounding, overflow to an infinity and the sign of zero are not
  modelled.
\<close>

datatype jsnumber = NaN | Finite rat | PosInfinity | NegInfinity

text \<open>White space and line terminators, as \<open>trim\<close> and the numeric conversion strip them.\<close>

definition isWhiteSpace :: "code_unit \<Rightarrow> bool" where
  "isWhiteSpace c =
    (c \<in> {0x9, 0xA, 0xB, 0xC, 0xD, 0x20, 0xA0, 0x1680, 0x2028, 0x2029, 0x202F, 0x205F,
           0x3000, 0xFEFF}
     \<or> (0x2000 \<le> c \<and> c \<le> 0x200A))"

definition trim :: "jsstring \<Rightarrow> jsstring" where
  "trim s = rev (dropWhile isWhiteSpace (rev (dropWhile isWhiteSpace s)))"

definition isDigit :: "code_unit \<Rightarrow> bool" where
  "isDigit c = (0x30 \<le> c \<and> c \<le> 0x39)"

definition digitValue :: "code_unit \<Rightarrow> nat" where
  "digitValue c = unat c - 48"

text \<open>The value of a run of ASCII decimal digits, most significant first.\<close>

definition digitsValue :: "jsstring \<Rightarrow> nat" where
  "digitsValue ds = foldl (\<lambda>acc c. 10 * acc + digitValue c) 0 ds"

definition hexValue :: "code_unit \<Rightarrow> nat option" where
  "hexValue c =
    (if 0x30 \<le> c \<and> c \<le> 0x39 then Some (unat c - 48)
     else if 0x41 \<le> c \<and> c \<le> 0x46 then Some (unat c - 55)
     else if 0x61 \<le> c \<and> c \<le> 0x66 then Some (unat c - 87)
     else None)"

text \<open>
  Digits in base \<open>b\<close> (2, 8 or 16): \<open>None\<close> when the run is empty or holds a unit that
  is not a digit of the base.
\<close>

definition radixValue :: "nat \<Rightarrow> jsstring \<Rightarrow> nat option" where
  "radixValue b ds =
    (if ds \<noteq> [] \<and> list_all (\<lambda>c. case hexValue c of Some v \<Rightarrow> v < b | None \<Rightarrow> False) ds
     then Some (foldl (\<lambda>acc c. b * acc + the (hexValue c)) 0 ds)
     else None)"

text \<open>\<open>ExponentPart\<close>: \<open>e\<close> or \<open>E\<close>, an optional sign, and at least one digit.\<close>

definition exponentPart :: "jsstring \<Rightarrow> int option" where
  "exponentPart s =
    (case s of
       [] \<Rightarrow> Some 0
     | c # r \<Rightarrow>
        if c = 0x65 \<or> c = 0x45 then
          (case r of
             [] \<Rightarrow> None
           | g # ds \<Rightarrow>
               if g = 0x2B \<or> g = 0x2D then
                 (if ds \<noteq> [] \<and> list_all isDigit ds
                  then Some ((if g = 0x2D then - 1 else 1) * int (digitsValue ds)) else None)
               else if list_all isDigit r then Some (int (digitsValue r)) else None)
        else None)"

text \<open>
  \<open>StrUnsignedDecimalLiteral\<close> without \<open>Infinity\<close>: digits, an optional fraction and an
  optional exponent, with at least one digit before or after the point.
\<close>

definition unsignedDecimal :: "jsstring \<Rightarrow> rat option" where
  "unsignedDecimal s =
    (let ip = takeWhile isDigit s; r = dropWhile isDigit s;
         dot = (r \<noteq> [] \<and> hd r = 0x2E);
         fp = (if dot then takeWhile isDigit (tl r) else []);
         r' = (if dot then dropWhile isDigit (tl r) else r)
     in if ip = [] \<and> fp = [] then None
        else (case exponentPart r' of
                None \<Rightarrow> None
              | Some e \<Rightarrow>
                  Some ((of_nat (digitsValue ip) + of_nat (digitsValue fp) / 10 ^ length fp)
                        * (if 0 \<le> e then 10 ^ nat e else 1 / 10 ^ nat (- e)))))"

definition strDecimalLiteral :: "jsstring \<Rightarrow> jsnumber" where
  "strDecimalLiteral s =
    (let neg = (s \<noteq> [] \<and> hd s = 0x2D);
         body = (if s \<noteq> [] \<and> (hd s = 0x2B \<or> hd s = 0x2D) then tl s else s)
     in if body = ascii ''Infinity'' then (if neg then NegInfinity else PosInfinity)
        else (case unsignedDecimal body of
                None \<Rightarrow> NaN
              | Some q \<Rightarrow> Finite (if neg then - q else q)))"

text \<open>
  The unary \<open>+\<close> on a string (\<open>StringToNumber\<close>): white space is stripped at both ends,
  the empty string is 0, a binary, octal or hexadecimal integer has no sign, and anything
  that is not a \<open>StrNumericLiteral\<close> is \<open>NaN\<close>.
\<close>

definition toNumber :: "jsstring \<Rightarrow> jsnumber" where
  "toNumber s =
    (let t = trim s in
     if t = [] then Finite 0
     else if length t > 2 \<and> hd t = 0x30 \<and> (t ! 1 = 0x78 \<or> t ! 1 = 0x58)
       then (case radixValue 16 (drop 2 t) of Some v \<Rightarrow> Finite (of_nat v) | None \<Rightarrow> NaN)
     else if length t > 2 \<and> hd t = 0x30 \<and> (t ! 1 = 0x6F \<or> t ! 1 = 0x4F)
       then (case radixValue 8 (drop 2 t) of Some v \<Rightarrow> Finite (of_nat v) | None \<Rightarrow> NaN)
     else if length t > 2 \<and> hd t = 0x30 \<and> (t ! 1 = 0x62 \<or> t ! 1 = 0x42)
       then (case radixValue 2 (drop 2 t) of Some v \<Rightarrow> Finite (of_nat v) | None \<Rightarrow> NaN)
     else strDecimalLiteral t)"

text \<open>The decimal rendering of a natural number (\<open>String(i)\<close> for an index).\<close>

fun natToString :: "nat \<Rightarrow> jsstring" where
  "natToString n =
    (if n < 10 then [of_nat (48 + n)] else natToString (n div 10) @ [of_nat (48 + n mod 10)])"

subsection \<open>Patterns and replacement\<close>

text \<open>
  The only regular expressions the hook builds are character classes \<open>[...]\<close> with or
  without the \<open>g\<close> flag and never the \<open>u\<close> flag: such a class matches one UTF-16 code
  unit at a time.
\<close>

datatype pattern = CharClass "code_unit list" bool

text \<open>
  \<open>new RegExp(`[${src}]`, flags)\<close>. A source without \<open>\\\<close>, \<open>]\<close>, \<open>^\<close> and \<open>-\<close> is the
  class of its own code units. How a source holding one of the four reads as class
  syntax is not modelled: \<open>None\<close>.
\<close>

definition classMeta :: "code_unit \<Rightarrow> bool" where
  "classMeta c = (c = 0x5C \<or> c = 0x5D \<or> c = 0x5E \<or> c = 0x2D)"

definition charClass :: "jsstring \<Rightarrow> bool \<Rightarrow> pattern option" where
  "charClass src global = (if list_ex classMeta src then None else Some (CharClass src global))"

text \<open>
  \<open>String.prototype.replace\<close> with a string pattern: the first occurrence of \<open>pat\<close> is
  replaced by what the replacer returns for it.
\<close>

fun replaceFirstSub :: "jsstring \<Rightarrow> (jsstring \<Rightarrow> jsstring) \<Rightarrow> jsstring \<Rightarrow> jsstring" where
  "replaceFirstSub pat rep [] = (if pat = [] then rep [] else [])"
| "replaceFirstSub pat rep (c # cs) =
    (if take (length pat) (c # cs) = pat then rep pat @ drop (length pat) (c # cs)
     else c # replaceFirstSub pat rep cs)"

text \<open>With a class and no \<open>g\<close> flag: the first code unit of the class is replaced.\<close>

fun replaceFirstUnit :: "code_unit list \<Rightarrow> (jsstring \<Rightarrow> jsstring) \<Rightarrow> jsstring \<Rightarrow> jsstring" where
  "replaceFirstUnit cls rep [] = []"
| "replaceFirstUnit cls rep (c # cs) =
    (if c \<in> set cls then rep [c] @ cs else c # replaceFirstUnit cls rep cs)"

text \<open>
  With a class and the \<open>g\<close> flag: every code unit of the class is replaced; replaced
  text is not scanned again.
\<close>

definition replaceAllUnits :: "code_unit list \<Rightarrow> (jsstring \<Rightarrow> jsstring) \<Rightarrow> jsstring \<Rightarrow> jsstring" where
  "replaceAllUnits cls rep s = concat (map (\<lambda>c. if c \<in> set cls then rep [c] else [c]) s)"

text \<open>
  \<open>s.replace(pattern, replacer)\<close>. A \<open>null\<close> pattern (the ref before the effect has
  run) is not a regular expression and is converted to the string \<open>"null"\<close>.
\<close>

definition replace :: "pattern option \<Rightarrow> (jsstring \<Rightarrow> jsstring) \<Rightarrow> jsstring \<Rightarrow> jsstring" where
  "replace pat rep s =
    (case pat of
       None \<Rightarrow> replaceFirstSub (ascii ''null'') rep s
     | Some (CharClass cls global) \<Rightarrow>
         if global then replaceAllUnits cls rep s else replaceFirstUnit cls rep s)"

subsection \<open>The descriptor and its derivation\<close>

text \<open>
  The ref \<open>numberData\<close>: the fields \<open>group\<close>, \<open>decimal\<close>, \<open>numeral\<close> and \<open>index\<close> of the
  source, each \<open>null\<close> (\<open>None\<close>) until the effect assigns it. \<open>index\<close> is the function
  \<open>d => index.get(d)\<close>: a number, or \<open>undefined\<close> for a key the map does not hold.
\<close>

record numberData =
  group_re :: "pattern option"
  decimal_re :: "pattern option"
  numeral_re :: "pattern option"
  index :: "(jsstring \<Rightarrow> nat option) option"

definition initialNumberData :: numberData where
  "initialNumberData = \<lparr>group_re = None, decimal_re = None, numeral_re = None, index = None\<rparr>"

text \<open>
  What \<open>Intl.NumberFormat\<close> answers for a locale on the two probes of the effect:
  the parts (type and value) of 12345.6, and 9876543210 formatted without grouping.
  \<open>Intl\<close> is the platform's, so it is a parameter \<open>intl\<close> of the hook, from the locale
  tag to these answers; \<open>None\<close> is the \<open>RangeError\<close> of a tag the platform refuses.
\<close>

record NumberFormat =
  formatToParts :: "(string \<times> jsstring) list"
  formatNoGrouping :: jsstring

text \<open>\<open>[...s]\<close>: by code point, a surrogate pair being one element.\<close>

fun codePoints :: "jsstring \<Rightarrow> jsstring list" where
  "codePoints [] = []"
| "codePoints [c] = [[c]]"
| "codePoints (c # d # cs) =
    (if 0xD800 \<le> c \<and> c \<le> 0xDBFF \<and> 0xDC00 \<le> d \<and> d \<le> 0xDFFF
     then [c, d] # codePoints cs else [c] # codePoints (d # cs))"

text \<open>
  \<open>new Map(numerals.map((d, i) => [d, i]))\<close> and its \<open>get\<close>: a later entry replaces an
  earlier one with the same key.
\<close>

definition indexMap :: "jsstring list \<Rightarrow> jsstring \<Rightarrow> nat option" where
  "indexMap numerals = map_of (rev (zip numerals [0..<length numerals]))"

text \<open>
  The body of the effect, assignment by assignment. The result is the exception that
  ended it, if any, and the ref as the effect left it; \<open>None\<close> when a class source is
  outside the modelled syntax.
\<close>

definition deriveNumberData ::
  "(string \<Rightarrow> NumberFormat option) \<Rightarrow> string \<Rightarrow> numberData
    \<Rightarrow> (error option \<times> numberData) option" where
  "deriveNumberData intl locale nd =
    (case intl locale of
       None \<Rightarrow> Some (Some RangeError, nd)
     | Some nf \<Rightarrow>
        (let parts = formatToParts nf;
             numerals = rev (codePoints (formatNoGrouping nf))
         in case map_of parts ''group'' of
              None \<Rightarrow> Some (Some TypeError, nd)
            | Some g \<Rightarrow>
               (case charClass g True of
                  None \<Rightarrow> None
                | Some gre \<Rightarrow>
                   (case map_of parts ''decimal'' of
                      None \<Rightarrow> Some (Some TypeError, nd\<lparr>group_re := Some gre\<rparr>)
                    | Some d \<Rightarrow>
                       (case charClass d False of
                          None \<Rightarrow> None
                        | Some dre \<Rightarrow>
                           (case charClass (concat numerals) True of
                              None \<Rightarrow> None
                            | Some nre \<Rightarrow>
                               Some (None,
                                 nd\<lparr>group_re := Some gre, decimal_re := Some dre,
                                    numeral_re := Some nre,
                                    index := Some (indexMap numerals)\<rparr>)))))))"

subsection \<open>parse\<close>

text \<open>
  The replacer of the third \<open>replace\<close>: the function \<open>index\<close>, whose result is
  converted to a string (\<open>undefined\<close> gives \<open>"undefined"\<close>); a \<open>null\<close> replacer is not
  callable and is converted to the string \<open>"null"\<close>.
\<close>

definition indexReplacer :: "(jsstring \<Rightarrow> nat option) option \<Rightarrow> jsstring \<Rightarrow> jsstring" where
  "indexReplacer ix d =
    (case ix of
       None \<Rightarrow> ascii ''null''
     | Some f \<Rightarrow> (case f d of None \<Rightarrow> ascii ''undefined'' | Some i \<Rightarrow> natToString i))"

text \<open>The cleaned string: the three replacements on the trimmed input.\<close>

definition cleaned :: "numberData \<Rightarrow> jsstring \<Rightarrow> jsstring" where
  "cleaned nd v =
    replace (numeral_re nd) (indexReplacer (index nd))
      (replace (decimal_re nd) (\<lambda>m. ascii ''.'')
        (replace (group_re nd) (\<lambda>m. []) (trim v)))"

definition parse :: "numberData \<Rightarrow> jsstring \<Rightarrow> jsnumber" where
  "parse nd v = (if cleaned nd v \<noteq> [] then toNumber (cleaned nd v) else NaN)"

subsection \<open>The hook across renders\<close>

text \<open>
  The dependency list of the effect, as the source writes it: \<open>[]\<close>, whatever the
  locale of the render.
\<close>

definition effectDeps :: "string \<Rightarrow> string list" where
  "effectDeps locale = []"

text \<open>
  A mounted \<open>useNumberParser\<close>: the ref, the exception of its effect, if any, and the
  dependencies of the last render. The effect runs after the first render, and after
  a later render whose dependencies differ from the previous ones. \<open>parse\<close> reads the
  ref when it is called.
\<close>

record parserHook =
  numberDataRef :: numberData
  effectError :: "error option"
  lastDeps :: "string list"

definition runEffect ::
  "(string \<Rightarrow> NumberFormat option) \<Rightarrow> string \<Rightarrow> numberData \<Rightarrow> parserHook option" where
  "runEffect intl locale nd =
    map_option
      (\<lambda>(err, nd'). \<lparr>numberDataRef = nd', effectError = err, lastDeps = effectDeps locale\<rparr>)
      (deriveNumberData intl locale nd)"

definition mountParser :: "(string \<Rightarrow> NumberFormat option) \<Rightarrow> string \<Rightarrow> parserHook option" where
  "mountParser intl locale = runEffect intl locale initialNumberData"

definition rerender ::
  "(string \<Rightarrow> NumberFormat option) \<Rightarrow> string \<Rightarrow> parserHook \<Rightarrow> parserHook option" where
  "rerender intl locale h =
    (if effectDeps locale = lastDeps h then Some h
     else runEffect intl locale (numberDataRef h))"

definition hookParse :: "parserHook \<Rightarrow> jsstring \<Rightarrow> jsnumber" where
  "hookParse h v = parse (numberDataRef h) v"

section \<open>Vocabulary of the statements\<close>

subsection \<open>The press machinery\<close>

text \<open>The two spin buttons, by direction: their events, step callback and repeat interval.\<close>

fun pressStart :: "direction \<Rightarrow> ('n, 'f) event" where
  "pressStart Increment = IncrementPressStart"
| "pressStart Decrement = DecrementPressStart"

fun pressEnd :: "direction \<Rightarrow> ('n, 'f) event" where
  "pressEnd Increment = IncrementPressEnd"
| "pressEnd Decrement = DecrementPressEnd"

fun stepCallback :: "direction \<Rightarrow> ('n, 'f) SpinButtonProps \<Rightarrow> 'f option" where
  "stepCallback Increment p = onIncrement p"
| "stepCallback Decrement p = onDecrement p"

fun repeatInterval :: "direction \<Rightarrow> nat" where
  "repeatInterval Increment = 60"
| "repeatInterval Decrement = 75"

text \<open>
  Event sequences with one spin button pressed at a time: a press starts only when no
  press is in progress (\<open>held\<close> says whether one is).
\<close>

fun oneAtATime :: "bool \<Rightarrow> ('n, 'f) event list \<Rightarrow> bool" where
  "oneAtATime held [] = True"
| "oneAtATime held (IncrementPressStart # evs) = (\<not> held \<and> oneAtATime True evs)"
| "oneAtATime held (DecrementPressStart # evs) = (\<not> held \<and> oneAtATime True evs)"
| "oneAtATime held (IncrementPressEnd # evs) = oneAtATime False evs"
| "oneAtATime held (DecrementPressEnd # evs) = oneAtATime False evs"
| "oneAtATime held (ev # evs) = oneAtATime held evs"

text \<open>
  The invariant of such sequences: while a press is in progress at most one timeout is
  pending and \<open>_async\<close> holds its handle; otherwise none is pending.
\<close>

definition tidy :: "bool \<Rightarrow> ('n, 'f) hookState \<Rightarrow> bool" where
  "tidy held s =
    (if held then length (timers s) \<le> 1 \<and> list_all (\<lambda>t. async s = Some (tid t)) (timers s)
     else timers s = [])"

text \<open>Every pending timeout has a handle handed out before the next fresh one.\<close>

definition freshHandles :: "('n, 'f) hookState \<Rightarrow> bool" where
  "freshHandles s = list_all (\<lambda>t. tid t < nextId s) (timers s)"

text \<open>The texts a handler announced.\<close>

definition announcements :: "'f outcome \<Rightarrow> jsstring list" where
  "announcements out = [t. Announce t \<leftarrow> fst out]"

subsection \<open>A host configuration for the concrete cases\<close>

definition exampleProps :: "(int, string) SpinButtonProps" where
  "exampleProps =
    \<lparr>valueProp = Num 5, textValue = None, minValue = Some 0, maxValue = Some 10,
     isDisabled = False, isReadOnly = False, isRequired = False,
     onValidate = Some ''validate'', onIncrement = Some ''increment'',
     onIncrementPage = None, onDecrement = Some ''decrement'', onDecrementPage = None,
     onDecrementToMin = Some ''toMin'', onIncrementToMax = Some ''toMax''\<rparr>"

definition plainKey :: "string \<Rightarrow> KeyboardEvent" where
  "plainKey k = \<lparr>key = k, ctrlKey = False, metaKey = False, shiftKey = False, altKey = False\<rparr>"


subsection \<open>Locale rules and formatting, for the statements about parse\<close>

text \<open>
  The numeral, group and decimal rules of a locale whose separators and ten numerals
  are one UTF-16 code unit each: the two separators, the ten numerals from zero to
  nine, the minus sign, and where the group separator stands (\<open>grouping n k\<close>: in an
  integer part of \<open>n\<close> digits, before its last \<open>k\<close> digits).
\<close>

record localeRules =
  groupSep :: code_unit
  decimalSep :: code_unit
  digits :: "code_unit list"
  minusSign :: jsstring
  grouping :: "nat \<Rightarrow> nat \<Rightarrow> bool"

text \<open>
  Modelled from the spec: \<open>Intl.NumberFormat\<close> is not part of the repository. Section
  4.1, steps 1 and 2: the first probe is shaped like \<open>12,345.6\<close>, with a group and a
  decimal part, and the second spans the ten digits, \<open>9876543210\<close>, without grouping.
\<close>

definition intlFor :: "localeRules \<Rightarrow> NumberFormat" where
  "intlFor L =
    \<lparr>formatToParts =
       [(''integer'', map (\<lambda>i. digits L ! i) [1, 2]), (''group'', [groupSep L]),
        (''integer'', map (\<lambda>i. digits L ! i) [3, 4, 5]), (''decimal'', [decimalSep L]),
        (''fraction'', map (\<lambda>i. digits L ! i) [6])],
     formatNoGrouping = rev (digits L)\<rparr>"







definition isHighSurrogate :: "code_unit \<Rightarrow> bool" where
  "isHighSurrogate c = (0xD800 \<le> c \<and> c \<le> 0xDBFF)"

text \<open>
  The locales the round trip is stated for: ten distinct numerals; separators that
  differ from each other and from the numerals; no separator or numeral among the four
  units \<open>\\ ] ^ -\<close>; no numeral that is white space, a full stop or a high surrogate.
\<close>

definition wellFormed :: "localeRules \<Rightarrow> bool" where
  "wellFormed L =
    (length (digits L) = 10 \<and> distinct (digits L)
     \<and> groupSep L \<noteq> decimalSep L
     \<and> groupSep L \<notin> set (digits L) \<and> decimalSep L \<notin> set (digits L)
     \<and> \<not> classMeta (groupSep L) \<and> \<not> classMeta (decimalSep L)
     \<and> \<not> list_ex (\<lambda>c. classMeta c \<or> isWhiteSpace c \<or> c = 0x2E \<or> isHighSurrogate c)
           (digits L))"

subsection \<open>Concrete locales\<close>

definition thirds :: "nat \<Rightarrow> nat \<Rightarrow> bool" where
  "thirds n k = (k mod 3 = 0)"

definition enUS :: localeRules where
  "enUS = \<lparr>groupSep = 0x2C, decimalSep = 0x2E, digits = ascii ''0123456789'',
     minusSign = ascii ''-'', grouping = thirds\<rparr>"

definition deDE :: localeRules where
  "deDE = \<lparr>groupSep = 0x2E, decimalSep = 0x2C, digits = ascii ''0123456789'',
     minusSign = ascii ''-'', grouping = thirds\<rparr>"

text \<open>Swedish: a no-break space groups, and the minus sign is U+2212.\<close>

definition svSE :: localeRules where
  "svSE = \<lparr>groupSep = 0xA0, decimalSep = 0x2C, digits = ascii ''0123456789'',
     minusSign = [0x2212], grouping = thirds\<rparr>"

definition exampleIntl :: "string \<Rightarrow> NumberFormat option" where
  "exampleIntl tag =
    (if tag = ''en-US'' then Some (intlFor enUS)
     else if tag = ''de-DE'' then Some (intlFor deDE)
     else if tag = ''sv-SE'' then Some (intlFor svSE)
     else None)"

subsection \<open>Canonical ASCII numerals\<close>



text \<open>
  A platform answer with numerals outside the Basic Multilingual Plane: the Adlam
  digits U+1E950 to U+1E959, each a surrogate pair, with ASCII separators.
\<close>

definition adlamDigit :: "nat \<Rightarrow> jsstring" where
  "adlamDigit i = [0xD83A, of_nat (0xDD50 + i)]"

definition adlamIntl :: "string \<Rightarrow> NumberFormat option" where
  "adlamIntl tag =
    Some \<lparr>formatToParts =
            [(''integer'', adlamDigit 1 @ adlamDigit 2), (''group'', [0x2C]),
             (''integer'', adlamDigit 3 @ adlamDigit 4 @ adlamDigit 5), (''decimal'', [0x2E]),
             (''fraction'', adlamDigit 6)],
          formatNoGrouping = concat (map adlamDigit (rev [0..<10]))\<rparr>"

section \<open>Properties of useSpinButton\<close>

lemmas press_defs = onIncrementPressStart_def onDecrementPressStart_def setTimeout_def
  clearTimeout_def onIncrementPressEnd_def onDecrementPressEnd_def fire_def

declare natToString.simps [simp del]

subsection \<open>The press handlers, by direction\<close>

lemma step_pressStart:
  "step ts s (pressStart d) =
    (case stepCallback d (props s) of
       None \<Rightarrow> (([], Some TypeError), s)
     | Some f \<Rightarrow> (([Call f], None),
         s\<lparr>timers := timers s @ [\<lparr>tid = nextId s, delay = 400, dir = d, callee = Some f\<rparr>],
           nextId := Suc (nextId s), async := Some (nextId s)\<rparr>))"
  by (cases d) (simp_all add: press_defs split: option.splits)

lemma step_pressEnd:
  "step ts s (pressEnd d) =
    (([], None),
     case async s of None \<Rightarrow> s
     | Some h \<Rightarrow> s\<lparr>timers := filter (\<lambda>t. tid t \<noteq> h) (timers s)\<rparr>)"
  by (cases d) (simp_all add: press_defs split: option.splits)

lemma fire_nothing_pending: "timers s = [] \<Longrightarrow> fire h s = (([], None), s)"
  by (simp add: fire_def)

lemma find_filter_neq: "find (\<lambda>t. tid t = h) (filter (\<lambda>t. tid t \<noteq> h) xs) = None"
  by (induction xs) auto

lemma fire_cleared: "fire h (clearTimeout h s) = (([], None), clearTimeout h s)"
  by (simp add: fire_def clearTimeout_def find_filter_neq)

lemma find_last_fresh:
  "list_all (\<lambda>t. tid t < i) xs \<Longrightarrow> tid x = i \<Longrightarrow> find (\<lambda>t. tid t = i) (xs @ [x]) = Some x"
  by (induction xs) auto

lemma filter_last_fresh:
  "list_all (\<lambda>t. tid t < i) xs \<Longrightarrow> tid x = i \<Longrightarrow> filter (\<lambda>t. tid t \<noteq> i) (xs @ [x]) = xs"
  by (induction xs) auto

lemma fire_last:
  assumes "timers s = xs @ [\<lparr>tid = i, delay = dl, dir = d, callee = Some f\<rparr>]"
    and "list_all (\<lambda>t. tid t < i) xs"
  shows "fire i s = (([Call f], None),
     s\<lparr>timers := xs @ [\<lparr>tid = nextId s, delay = repeatInterval d, dir = d, callee = Some f\<rparr>],
       nextId := Suc (nextId s), async := Some (nextId s)\<rparr>)"
  using find_last_fresh[OF assms(2), of "\<lparr>tid = i, delay = dl, dir = d, callee = Some f\<rparr>"]
    filter_last_fresh[OF assms(2), of "\<lparr>tid = i, delay = dl, dir = d, callee = Some f\<rparr>"]
  by (cases d) (simp_all add: press_defs assms(1))

lemma run_Cons_snd: "snd (run ts s (ev # evs)) = snd (run ts (snd (step ts s ev)) evs)"
  by (simp add: case_prod_beta)

subsection \<open>Handles are fresh\<close>

text \<open>In every state reached from mount, the pending handles are below the next one.\<close>

lemma freshHandles_step: "freshHandles s \<Longrightarrow> freshHandles (snd (step ts s ev))"
proof (cases ev)
  case (TimerFire h)
  assume "freshHandles s"
  then show ?thesis
    unfolding TimerFire
    by (auto simp: freshHandles_def press_defs list_all_iff
        split: option.splits direction.splits)
qed (auto simp: freshHandles_def press_defs render_def onFocus_def onBlur_def list_all_iff
    split: option.splits)

lemma freshHandles_run: "freshHandles s \<Longrightarrow> freshHandles (snd (run ts s evs))"
proof (induction evs arbitrary: s)
  case Nil
  then show ?case by simp
next
  case (Cons ev evs)
  show ?case
    unfolding run_Cons_snd by (rule Cons.IH) (rule freshHandles_step[OF Cons.prems])
qed

lemma freshHandles_mount: "freshHandles (mount p r)"
  by (simp add: freshHandles_def mount_def)

subsection \<open>One shared timer handle\<close>

text \<open>
  C1. The claim: each direction keeps its own repeat state, so that holding both
  buttons runs two independent repeat sequences, with at most one pending timer per
  direction. The code keeps one handle for both directions. With both buttons held,
  releasing the increment button clears the timer of the decrement button, which is
  still held, and leaves the increment timer pending; after both releases the increment
  timer still fires and re-arms itself; and a new increment press then has two pending
  increment timers.
\<close>

theorem shared_handle_leaks:
  "map (\<lambda>t. (tid t, dir t))
     (timers (snd (run ts (mount exampleProps True)
        [IncrementPressStart, DecrementPressStart, IncrementPressEnd]))) = [(1, Increment)]
   \<and> map (\<lambda>t. (tid t, dir t))
     (timers (snd (run ts (mount exampleProps True)
        [IncrementPressStart, DecrementPressStart, IncrementPressEnd, DecrementPressEnd])))
      = [(1, Increment)]
   \<and> calls (fst (run ts (mount exampleProps True)
        [IncrementPressStart, DecrementPressStart, IncrementPressEnd, DecrementPressEnd,
         TimerFire 1, TimerFire 3]))
      = [''increment'', ''decrement'', ''increment'', ''increment'']
   \<and> map (\<lambda>t. (tid t, dir t))
     (timers (snd (run ts (mount exampleProps True)
        [IncrementPressStart, DecrementPressStart, IncrementPressEnd, IncrementPressStart])))
      = [(1, Increment), (3, Increment)]"
  by (simp add: mount_def exampleProps_def press_defs)

subsection \<open>Cancellation\<close>

lemma tidy_step:
  assumes "tidy held s" "oneAtATime held (ev # evs)"
  shows "\<exists>held'. tidy held' (snd (step ts s ev)) \<and> oneAtATime held' evs
     \<and> ((ev = IncrementPressEnd \<or> ev = DecrementPressEnd) \<longrightarrow> \<not> held')"
proof (cases ev)
  case (TimerFire h)
  show ?thesis
  proof (cases held)
    case True
    with assms TimerFire show ?thesis
      apply (intro exI[of _ True])
      apply (cases "timers s")
       apply (auto simp: tidy_def press_defs split: option.splits direction.splits)
      done
  next
    case False
    with assms TimerFire show ?thesis
      by (intro exI[of _ False]) (auto simp: tidy_def press_defs)
  qed
next
  case IncrementPressStart
  with assms show ?thesis
    by (intro exI[of _ True]) (auto simp: tidy_def press_defs split: option.splits)
next
  case DecrementPressStart
  with assms show ?thesis
    by (intro exI[of _ True]) (auto simp: tidy_def press_defs split: option.splits)
next
  case IncrementPressEnd
  with assms show ?thesis
    apply (intro exI[of _ False])
    apply (cases "timers s")
     apply (auto simp: tidy_def press_defs split: option.splits if_splits)
    done
next
  case DecrementPressEnd
  with assms show ?thesis
    apply (intro exI[of _ False])
    apply (cases "timers s")
     apply (auto simp: tidy_def press_defs split: option.splits if_splits)
    done
qed (use assms in \<open>auto simp: render_def onFocus_def onBlur_def tidy_def intro!: exI[of _ held]\<close>)

lemma tidy_run:
  "tidy held s \<Longrightarrow> oneAtATime held evs \<Longrightarrow>
     length (timers (snd (run ts s evs))) \<le> 1
     \<and> (evs \<noteq> [] \<and> (last evs = IncrementPressEnd \<or> last evs = DecrementPressEnd)
          \<longrightarrow> timers (snd (run ts s evs)) = [])"
proof (induction evs arbitrary: s held)
  case Nil
  then show ?case by (auto simp: tidy_def split: if_splits)
next
  case (Cons ev evs)
  from tidy_step[OF Cons.prems, of ts] obtain held' where
    h: "tidy held' (snd (step ts s ev))" "oneAtATime held' evs"
       "(ev = IncrementPressEnd \<or> ev = DecrementPressEnd) \<longrightarrow> \<not> held'"
    by blast
  from Cons.IH[OF h(1) h(2)] have
    ih: "length (timers (snd (run ts (snd (step ts s ev)) evs))) \<le> 1"
        "evs \<noteq> [] \<and> (last evs = IncrementPressEnd \<or> last evs = DecrementPressEnd)
          \<longrightarrow> timers (snd (run ts (snd (step ts s ev)) evs)) = []"
    by blast+
  have r: "snd (run ts s (ev # evs)) = snd (run ts (snd (step ts s ev)) evs)"
    by (rule run_Cons_snd)
  show ?case
  proof (cases evs)
    case Nil
    with h show ?thesis
      by (auto simp: tidy_def split: prod.splits if_splits)
  next
    case (Cons a as)
    with ih r show ?thesis by simp
  qed
qed

lemma tidy_mount: "tidy False (mount p r)"
  by (simp add: tidy_def mount_def)

lemma oneAtATime_snoc_pressEnd:
  "oneAtATime held evs \<Longrightarrow> oneAtATime held (evs @ [pressEnd d])"
  by (induction held evs rule: oneAtATime.induct) (cases d; simp)+

text \<open>
  C2, as stated: press-end and unmount cancel the outstanding repeat callback. The
  hook registers no cleanup: after a press-start and an unmount the timer of handle 1
  is still pending, and when it fires the host's increment callback is called.
\<close>

theorem unmount_leaves_timer_pending:
  "fst (step (\<lambda>n. []) (snd (run (\<lambda>n. []) (mount exampleProps True)
          [IncrementPressStart, Unmount])) (TimerFire 1))
     = ([Call ''increment''], None)"
  by (simp add: mount_def exampleProps_def press_defs)

text \<open>
  C2, amended. In every sequence of events after mount in which a press starts only
  when no press is in progress: at most one repeat timer is pending at any time; a
  press-end of either button leaves no timer pending, so that whatever handle fires
  afterwards runs nothing; in any state, a timer cleared by \<open>clearTimeout\<close> runs nothing
  when its handle fires; and unmounting runs no code of the hook.
\<close>

theorem pressEnd_cancels_pending:
  assumes "oneAtATime False evs"
  shows "length (timers (snd (run ts (mount p r) evs))) \<le> 1
    \<and> timers (snd (run ts (mount p r) (evs @ [pressEnd d]))) = []
    \<and> (\<forall>h. step ts (snd (run ts (mount p r) (evs @ [pressEnd d]))) (TimerFire h)
          = (([], None), snd (run ts (mount p r) (evs @ [pressEnd d]))))
    \<and> (\<forall>h s. step ts (clearTimeout h s) (TimerFire h) = (([], None), clearTimeout h s))
    \<and> (\<forall>s. step ts s Unmount = (([], None), s))"
proof -
  have one: "length (timers (snd (run ts (mount p r) evs))) \<le> 1"
    using tidy_run[OF tidy_mount assms, of ts p r] by blast
  have "last (evs @ [pressEnd d]) = IncrementPressEnd
      \<or> last (evs @ [pressEnd d]) = DecrementPressEnd"
    by (cases d) simp_all
  then have none: "timers (snd (run ts (mount p r) (evs @ [pressEnd d]))) = []"
    using tidy_run[OF tidy_mount oneAtATime_snoc_pressEnd[OF assms], of ts p r d] by blast
  show ?thesis
    using one none by (simp add: fire_nothing_pending fire_cleared)
qed

theorem pressEnd_cancels_pending_witness:
  "oneAtATime False [IncrementPressStart, TimerFire 1, Unmount :: (int, string) event]
   \<and> length (timers (snd (run (\<lambda>n. []) (mount exampleProps True)
        [IncrementPressStart, TimerFire 1, Unmount]))) \<le> 1
   \<and> timers (snd (run (\<lambda>n. []) (mount exampleProps True)
        ([IncrementPressStart, TimerFire 1, Unmount] @ [pressEnd Increment]))) = []"
  using pressEnd_cancels_pending
    [of "[IncrementPressStart, TimerFire 1, Unmount]" "\<lambda>n. []" exampleProps True Increment]
  by (simp add: mount_def exampleProps_def press_defs)

subsection \<open>Absent callbacks\<close>

text \<open>
  The only handler of the keyboard path that can raise is the \<open>Enter\<close> branch, whose
  call of \<open>onValidate\<close> has no guard.
\<close>

lemma onKeyDown_throws_iff:
  "snd (onKeyDown p e) \<noteq> None \<longleftrightarrow>
     \<not> (ctrlKey e \<or> metaKey e \<or> shiftKey e \<or> altKey e \<or> isReadOnly p)
     \<and> key e = ''Enter'' \<and> onValidate p = None"
  by (cases "onValidate p")
    (auto simp: onKeyDown_def preventThenCall_def guarded_def split: option.splits)

text \<open>
  C3. The claim: with the optional callback of a key absent the controller never
  throws, has no effect and leaves default handling alone, also for \<open>Enter\<close> and for
  blur with \<open>onValidate\<close> absent. The code guards every callback of the keyboard path
  but \<open>onValidate\<close>: on \<open>Enter\<close> it prevents the default and then raises a
  \<open>TypeError\<close>, and on blur it raises a \<open>TypeError\<close>.
\<close>

theorem onValidate_absent_throws:
  "onKeyDown (p\<lparr>onValidate := None, isReadOnly := False\<rparr>) (plainKey ''Enter'')
     = ([PreventDefault], Some TypeError)
   \<and> fst (step ts (s\<lparr>props := (props s)\<lparr>onValidate := None\<rparr>\<rparr>) Blur)
     = ([], Some TypeError)"
  by (simp add: onKeyDown_def plainKey_def preventThenCall_def onBlur_def)

subsection \<open>Announcements\<close>

lemma announcements_no_announce [simp]:
  "announcements ([], err) = []"
  "announcements ([SelectInput], err) = []"
  "announcements ([Call f], err) = []"
  "announcements ([PreventDefault, Call f], err) = []"
  "announcements ([PreventDefault], err) = []"
  "announcements ([Announce t], err) = [t]"
  by (simp_all add: announcements_def)






text \<open>
  The effect compares its dependencies, not the announced text: a render that changes
  \<open>value\<close> under an unchanged, non-empty \<open>textValue\<close> announces that same text again.
\<close>

lemma announcement_on_dependency_change:
  "isFocused s \<Longrightarrow> textValue p' = Some t \<Longrightarrow> t \<noteq> [] \<Longrightarrow> valueProp p' \<noteq> valueProp (props s)
   \<Longrightarrow> announcements (fst (step ts s (Render p'))) = [t]"
  by (simp add: render_def announced_def)


subsection \<open>Press-start, repeat and release\<close>

lemma held_fires:
  "timers s = xs @ [\<lparr>tid = i, delay = dl, dir = d, callee = Some f\<rparr>] \<Longrightarrow>
   list_all (\<lambda>t. tid t < i) xs \<Longrightarrow> nextId s = Suc i \<Longrightarrow>
   calls (fst (run ts s (map TimerFire [i..<i + n]))) = replicate n f
   \<and> (\<exists>dl'. timers (snd (run ts s (map TimerFire [i..<i + n])))
        = xs @ [\<lparr>tid = i + n, delay = dl', dir = d, callee = Some f\<rparr>])"
proof (induction n arbitrary: s i dl)
  case 0
  then show ?case by simp
next
  case (Suc n)
  let ?s' = "s\<lparr>timers := xs @ [\<lparr>tid = nextId s, delay = repeatInterval d, dir = d,
                                callee = Some f\<rparr>],
       nextId := Suc (nextId s), async := Some (nextId s)\<rparr>"
  have f: "fire i s = (([Call f], None), ?s')"
    using fire_last[OF Suc.prems(1,2)] .
  have t: "timers ?s' = xs @ [\<lparr>tid = Suc i, delay = repeatInterval d, dir = d,
                              callee = Some f\<rparr>]"
    and n: "nextId ?s' = Suc (Suc i)"
    using Suc.prems(3) by simp_all
  have x: "list_all (\<lambda>t. tid t < Suc i) xs"
    using Suc.prems(2) by (auto simp: list_all_iff)
  have u: "[i..<i + Suc n] = i # [Suc i..<Suc i + n]"
    by (simp add: upt_conv_Cons)
  from Suc.IH[OF t x n] show ?case
    unfolding u
    by (auto simp add: f split: prod.splits)
qed

text \<open>
  C8. In every state reached from mount, with the step callback of a direction
  supplied: press-start calls the callback once, at once, and then arms one timer for
  400 ms whose handle it stores; press-start followed by press-end, with no fire
  between, makes one call in all and removes the timer of this press, which therefore
  never fires, and when no other timer was pending nothing at all can fire
  afterwards; a fire of the timer of the press calls the callback once and arms the
  next timer with the direction's repeat interval; and press-start followed by \<open>n\<close>
  fires of the current timer makes \<open>n + 1\<close> calls.
\<close>

theorem pressStart_once_then_repeat:
  assumes reach: "s = snd (run ts (mount p r) evs)"
    and cb: "stepCallback d (props s) = Some f"
  shows "step ts s (pressStart d) =
      (([Call f], None),
       s\<lparr>timers := timers s @ [\<lparr>tid = nextId s, delay = 400, dir = d, callee = Some f\<rparr>],
         nextId := Suc (nextId s), async := Some (nextId s)\<rparr>)
    \<and> calls (fst (run ts s [pressStart d, pressEnd d])) = [f]
    \<and> timers (snd (run ts s [pressStart d, pressEnd d])) = timers s
    \<and> fst (step ts (snd (run ts s [pressStart d, pressEnd d])) (TimerFire (nextId s)))
        = ([], None)
    \<and> (timers s = [] \<longrightarrow>
         (\<forall>h. fst (step ts (snd (run ts s [pressStart d, pressEnd d])) (TimerFire h))
            = ([], None)))
    \<and> step ts (snd (step ts s (pressStart d))) (TimerFire (nextId s)) =
      (([Call f], None),
       s\<lparr>timers := timers s @ [\<lparr>tid = Suc (nextId s), delay = repeatInterval d, dir = d,
                                  callee = Some f\<rparr>],
         nextId := Suc (Suc (nextId s)), async := Some (Suc (nextId s))\<rparr>)
    \<and> calls (fst (run ts s (pressStart d # map TimerFire [nextId s..<nextId s + n])))
        = replicate (Suc n) f"
proof -
  let ?new = "\<lparr>tid = nextId s, delay = 400, dir = d, callee = Some f\<rparr>"
  let ?s1 = "s\<lparr>timers := timers s @ [?new], nextId := Suc (nextId s),
       async := Some (nextId s)\<rparr>"
  have "freshHandles s"
    unfolding reach by (rule freshHandles_run[OF freshHandles_mount])
  then have fresh: "list_all (\<lambda>t. tid t < nextId s) (timers s)"
    by (simp add: freshHandles_def)
  have start: "step ts s (pressStart d) = (([Call f], None), ?s1)"
    using cb by (simp add: step_pressStart)
  have gone: "filter (\<lambda>t. tid t \<noteq> nextId s) (timers s @ [?new]) = timers s"
    by (rule filter_last_fresh[OF fresh]) simp
  have stop: "step ts ?s1 (pressEnd d) = (([], None), ?s1\<lparr>timers := timers s\<rparr>)"
    using gone by (simp add: step_pressEnd)
  have both: "run ts s [pressStart d, pressEnd d]
      = ([([Call f], None), ([], None)], ?s1\<lparr>timers := timers s\<rparr>)"
    by (simp add: start stop)
  have c2: "calls (fst (run ts s [pressStart d, pressEnd d])) = [f]"
    unfolding both by simp
  have c3: "timers (snd (run ts s [pressStart d, pressEnd d])) = timers s"
    unfolding both by simp
  have nf: "find (\<lambda>t. tid t = nextId s) (timers s) = None"
    using fresh by (auto simp: find_None_iff list_all_iff)
  have c4: "fst (step ts (snd (run ts s [pressStart d, pressEnd d])) (TimerFire (nextId s)))
      = ([], None)"
    unfolding both using nf by (simp add: fire_def)
  have c5: "timers s = [] \<longrightarrow>
      (\<forall>h. fst (step ts (snd (run ts s [pressStart d, pressEnd d])) (TimerFire h))
         = ([], None))"
    unfolding both by (simp add: fire_nothing_pending)
  have t1: "timers ?s1 = timers s @ [?new]" and n1: "nextId ?s1 = Suc (nextId s)"
    by simp_all
  have c6: "step ts (snd (step ts s (pressStart d))) (TimerFire (nextId s)) =
      (([Call f], None),
       s\<lparr>timers := timers s @ [\<lparr>tid = Suc (nextId s), delay = repeatInterval d, dir = d,
                                  callee = Some f\<rparr>],
         nextId := Suc (Suc (nextId s)), async := Some (Suc (nextId s))\<rparr>)"
    unfolding start using fire_last[OF t1 fresh] by simp
  have fires: "calls (fst (run ts ?s1 (map TimerFire [nextId s..<nextId s + n])))
      = replicate n f"
    using held_fires[OF t1 fresh n1] by blast
  have c7: "calls (fst (run ts s (pressStart d # map TimerFire [nextId s..<nextId s + n])))
      = replicate (Suc n) f"
    using fires by (simp add: start case_prod_beta)
  from start c2 c3 c4 c5 c6 c7 show ?thesis
    by (intro conjI)
qed

theorem pressStart_once_then_repeat_witness:
  "stepCallback Increment
        (props (snd (run (\<lambda>n. []) (mount exampleProps True)
           [Focus, DecrementPressStart, TimerFire 1]))) = Some ''increment''
   \<and> calls (fst (run (\<lambda>n. [])
        (snd (run (\<lambda>n. []) (mount exampleProps True) [Focus, DecrementPressStart, TimerFire 1]))
        [pressStart Increment, pressEnd Increment])) = [''increment'']
   \<and> calls (fst (run (\<lambda>n. [])
        (snd (run (\<lambda>n. []) (mount exampleProps True) [Focus, DecrementPressStart, TimerFire 1]))
        (pressStart Increment # map TimerFire [3..<3 + 2])))
      = [''increment'', ''increment'', ''increment'']"
  using pressStart_once_then_repeat
    [of "snd (run (\<lambda>n. []) (mount exampleProps True) [Focus, DecrementPressStart, TimerFire 1])"
        "\<lambda>n. []" exampleProps True "[Focus, DecrementPressStart, TimerFire 1]"
        Increment "''increment''" 2]
  by (simp add: mount_def exampleProps_def press_defs onFocus_def)

subsection \<open>Keyboard dispatch\<close>

text \<open>
  C9. With no modifier held and the control not read-only: \<open>PageUp\<close> calls the page
  increment callback once, and only it, when it is supplied; when it is absent,
  \<open>PageUp\<close> calls the single increment callback once if that is supplied, and does
  nothing, leaving the default in place, if it is absent too. \<open>PageDown\<close> is the same
  with the decrement callbacks.
\<close>

theorem onKeyDown_PageUp_PageDown:
  assumes "\<not> ctrlKey e" "\<not> metaKey e" "\<not> shiftKey e" "\<not> altKey e" "\<not> isReadOnly p"
  shows "(key e = ''PageUp'' \<longrightarrow>
            onKeyDown p e =
              (case onIncrementPage p of
                 Some g \<Rightarrow> ([PreventDefault, Call g], None)
               | None \<Rightarrow> (case onIncrement p of
                            Some f \<Rightarrow> ([PreventDefault, Call f], None)
                          | None \<Rightarrow> ([], None))))
       \<and> (key e = ''PageDown'' \<longrightarrow>
            onKeyDown p e =
              (case onDecrementPage p of
                 Some g \<Rightarrow> ([PreventDefault, Call g], None)
               | None \<Rightarrow> (case onDecrement p of
                            Some f \<Rightarrow> ([PreventDefault, Call f], None)
                          | None \<Rightarrow> ([], None))))"
  using assms
  by (auto simp: onKeyDown_def preventThenCall_def guarded_def split: option.splits)

theorem onKeyDown_PageUp_PageDown_witness:
  "\<not> ctrlKey (plainKey ''PageUp'') \<and> \<not> metaKey (plainKey ''PageUp'')
   \<and> \<not> shiftKey (plainKey ''PageUp'') \<and> \<not> altKey (plainKey ''PageUp'')
   \<and> \<not> isReadOnly exampleProps \<and> key (plainKey ''PageUp'') = ''PageUp''
   \<and> onKeyDown exampleProps (plainKey ''PageUp'') = ([PreventDefault, Call ''increment''], None)
   \<and> onKeyDown (exampleProps\<lparr>onIncrementPage := Some ''page''\<rparr>) (plainKey ''PageUp'')
      = ([PreventDefault, Call ''page''], None)
   \<and> onKeyDown (exampleProps\<lparr>onIncrement := None\<rparr>) (plainKey ''PageUp'') = ([], None)
   \<and> onKeyDown (exampleProps\<lparr>onDecrementPage := Some ''page''\<rparr>) (plainKey ''PageDown'')
      = ([PreventDefault, Call ''page''], None)"
  using onKeyDown_PageUp_PageDown [of "plainKey ''PageUp''" exampleProps]
    onKeyDown_PageUp_PageDown
      [of "plainKey ''PageUp''" "exampleProps\<lparr>onIncrementPage := Some ''page''\<rparr>"]
    onKeyDown_PageUp_PageDown [of "plainKey ''PageUp''" "exampleProps\<lparr>onIncrement := None\<rparr>"]
    onKeyDown_PageUp_PageDown
      [of "plainKey ''PageDown''" "exampleProps\<lparr>onDecrementPage := Some ''page''\<rparr>"]
  by (simp add: plainKey_def exampleProps_def)

subsection \<open>The disabled flag\<close>

text \<open>
  C10. On a disabled control the handlers do what they do on an enabled one: the
  flag is reported as \<open>aria-disabled\<close> and read nowhere else. The key dispatch is that
  of the same props with the flag off, so \<open>ArrowUp\<close> with \<open>onIncrement\<close> supplied, no
  modifier and not read-only prevents the default and calls it; a modifier or the
  read-only flag is what makes the dispatch do nothing; and press-start on either
  button calls the step callback and arms the 400 ms timer.
\<close>

theorem disabled_gates_nothing:
  assumes "isDisabled (props s)"
  shows "aria_disabled (spinButtonProps (props s)) = Some True
    \<and> onKeyDown (props s) e = onKeyDown ((props s)\<lparr>isDisabled := False\<rparr>) e
    \<and> (\<not> ctrlKey e \<and> \<not> metaKey e \<and> \<not> shiftKey e \<and> \<not> altKey e \<and> \<not> isReadOnly (props s)
        \<and> key e = ''ArrowUp'' \<and> onIncrement (props s) = Some f
       \<longrightarrow> step ts s (KeyDown e) = (([PreventDefault, Call f], None), s))
    \<and> (ctrlKey e \<or> metaKey e \<or> shiftKey e \<or> altKey e \<or> isReadOnly (props s)
       \<longrightarrow> step ts s (KeyDown e) = (([], None), s))
    \<and> (stepCallback d (props s) = Some g
       \<longrightarrow> step ts s (pressStart d) =
            (([Call g], None),
             s\<lparr>timers := timers s @ [\<lparr>tid = nextId s, delay = 400, dir = d, callee = Some g\<rparr>],
               nextId := Suc (nextId s), async := Some (nextId s)\<rparr>))"
  using assms
  by (auto simp: onKeyDown_def preventThenCall_def guarded_def step_pressStart
      spinButtonProps_def)

theorem disabled_gates_nothing_witness:
  "isDisabled (props (mount (exampleProps\<lparr>isDisabled := True\<rparr>) True))
   \<and> aria_disabled (spinButtonProps (props (mount (exampleProps\<lparr>isDisabled := True\<rparr>) True)))
      = Some True
   \<and> step (\<lambda>n. []) (mount (exampleProps\<lparr>isDisabled := True\<rparr>) True)
        (KeyDown (plainKey ''ArrowUp''))
      = (([PreventDefault, Call ''increment''], None),
         mount (exampleProps\<lparr>isDisabled := True\<rparr>) True)
   \<and> fst (step (\<lambda>n. []) (mount (exampleProps\<lparr>isDisabled := True\<rparr>) True)
        (pressStart Decrement)) = ([Call ''decrement''], None)
   \<and> map delay (timers (snd (step (\<lambda>n. []) (mount (exampleProps\<lparr>isDisabled := True\<rparr>) True)
        (pressStart Decrement)))) = [400]"
  using disabled_gates_nothing
    [of "mount (exampleProps\<lparr>isDisabled := True\<rparr>) True" "plainKey ''ArrowUp''"
        "''increment''" "\<lambda>n. []" Decrement "''decrement''"]
  by (simp add: mount_def exampleProps_def plainKey_def onKeyDown_def preventThenCall_def
      guarded_def press_defs spinButtonProps_def)

section \<open>Properties of useNumberParser\<close>


subsection \<open>Evaluation of strings\<close>

lemma ascii_simps: "ascii [] = []" "ascii (c # cs) = of_nat (of_char c) # ascii cs"
  by (simp_all add: ascii_def)

lemma replace_Nil: "replace pat rep [] = []"
  by (cases pat) (auto simp: replace_def replaceAllUnits_def ascii_simps split: pattern.splits)

lemma trim_whitespace: "list_all isWhiteSpace v \<Longrightarrow> trim v = []"
proof -
  assume "list_all isWhiteSpace v"
  then have d: "dropWhile isWhiteSpace v = []"
    by (induction v) auto
  show ?thesis unfolding trim_def d by simp
qed

lemma cleaned_whitespace: "list_all isWhiteSpace v \<Longrightarrow> cleaned nd v = []"
  by (simp add: cleaned_def trim_whitespace replace_Nil)




lemma codePoints_singletons:
  "\<not> list_ex isHighSurrogate xs \<Longrightarrow> codePoints xs = map (\<lambda>c. [c]) xs"
  by (induction xs rule: codePoints.induct) (auto simp: isHighSurrogate_def)


subsection \<open>Deriving the descriptor\<close>

lemma wellFormed_D:
  assumes "wellFormed L"
  shows "length (digits L) = 10" "distinct (digits L)" "groupSep L \<noteq> decimalSep L"
    "groupSep L \<notin> set (digits L)" "decimalSep L \<notin> set (digits L)"
    "\<not> classMeta (groupSep L)" "\<not> classMeta (decimalSep L)"
    "\<And>c. c \<in> set (digits L) \<Longrightarrow> \<not> classMeta c \<and> \<not> isWhiteSpace c \<and> c \<noteq> 0x2E \<and> \<not> isHighSurrogate c"
  using assms by (auto simp: wellFormed_def list_ex_iff)

lemma mountParser_wellFormed:
  assumes wf: "wellFormed L" and intl: "intl tag = Some (intlFor L)"
  shows "mountParser intl tag =
    Some \<lparr>numberDataRef =
       \<lparr>group_re = Some (CharClass [groupSep L] True),
        decimal_re = Some (CharClass [decimalSep L] False),
        numeral_re = Some (CharClass (digits L) True),
        index = Some (indexMap (map (\<lambda>c. [c]) (digits L)))\<rparr>,
      effectError = None, lastDeps = []\<rparr>"
proof -
  have hs: "\<not> list_ex isHighSurrogate (rev (digits L))"
    using wellFormed_D(8)[OF wf] by (auto simp: list_ex_iff)
  have cp: "rev (codePoints (rev (digits L))) = map (\<lambda>c. [c]) (digits L)"
    by (simp add: codePoints_singletons[OF hs] rev_map)
  have cc: "concat (map (\<lambda>c. [c]) (digits L)) = digits L"
    by (induction "digits L") auto
  have nm: "\<not> list_ex classMeta (digits L)"
    using wellFormed_D(8)[OF wf] by (auto simp: list_ex_iff)
  show ?thesis
    using wellFormed_D(6,7)[OF wf] nm
    by (simp add: mountParser_def runEffect_def effectDeps_def deriveNumberData_def intl
        intlFor_def cp cc charClass_def initialNumberData_def)
qed










subsection \<open>The numeric conversion on canonical text\<close>













subsection \<open>Cleaning a formatted number\<close>



subsection \<open>The concrete locales\<close>

lemma wellFormed_examples: "wellFormed enUS" "wellFormed deDE" "wellFormed svSE"
  by (simp_all add: wellFormed_def enUS_def deDE_def svSE_def ascii_simps classMeta_def
      isWhiteSpace_def isHighSurrogate_def)

lemma mount_enUS:
  "mountParser exampleIntl ''en-US'' =
    Some \<lparr>numberDataRef =
       \<lparr>group_re = Some (CharClass [0x2C] True), decimal_re = Some (CharClass [0x2E] False),
        numeral_re = Some (CharClass (ascii ''0123456789'') True),
        index = Some (indexMap (map (\<lambda>c. [c]) (ascii ''0123456789'')))\<rparr>,
      effectError = None, lastDeps = []\<rparr>"
  using mountParser_wellFormed[OF wellFormed_examples(1), of exampleIntl "''en-US''"]
  by (simp add: exampleIntl_def enUS_def)

lemma mount_deDE:
  "mountParser exampleIntl ''de-DE'' =
    Some \<lparr>numberDataRef =
       \<lparr>group_re = Some (CharClass [0x2E] True), decimal_re = Some (CharClass [0x2C] False),
        numeral_re = Some (CharClass (ascii ''0123456789'') True),
        index = Some (indexMap (map (\<lambda>c. [c]) (ascii ''0123456789'')))\<rparr>,
      effectError = None, lastDeps = []\<rparr>"
  using mountParser_wellFormed[OF wellFormed_examples(2), of exampleIntl "''de-DE''"]
  by (simp add: exampleIntl_def deDE_def)


lemmas eval_cleaned = cleaned_def ascii_simps trim_def isWhiteSpace_def replace_def
  replaceAllUnits_def indexReplacer_def indexMap_def upt_conv_Cons natToString.simps

lemmas eval_toNumber = toNumber_def ascii_simps trim_def isWhiteSpace_def
  strDecimalLiteral_def unsignedDecimal_def isDigit_def exponentPart_def digitsValue_def
  digitValue_def

lemma toNumber_1_2345: "toNumber (ascii ''1.2345'') = Finite (2469 / 2000)"
  by (simp add: eval_toNumber)

lemma toNumber_1234_5: "toNumber (ascii ''1234.5'') = Finite (2469 / 2)"
  by (simp add: eval_toNumber)


lemma toNumber_space: "toNumber (ascii '' '') = Finite 0"
  by (simp add: eval_toNumber)

lemma cleaned_enUS_1_234_5:
  "cleaned \<lparr>group_re = Some (CharClass [0x2C] True), decimal_re = Some (CharClass [0x2E] False),
        numeral_re = Some (CharClass (ascii ''0123456789'') True),
        index = Some (indexMap (map (\<lambda>c. [c]) (ascii ''0123456789'')))\<rparr>
     (ascii ''1.234,5'') = ascii ''1.2345''"
  by (simp add: eval_cleaned)

lemma cleaned_deDE_1_234_5:
  "cleaned \<lparr>group_re = Some (CharClass [0x2E] True), decimal_re = Some (CharClass [0x2C] False),
        numeral_re = Some (CharClass (ascii ''0123456789'') True),
        index = Some (indexMap (map (\<lambda>c. [c]) (ascii ''0123456789'')))\<rparr>
     (ascii ''1.234,5'') = ascii ''1234.5''"
  by (simp add: eval_cleaned)


lemma cleaned_enUS_commas:
  "cleaned \<lparr>group_re = Some (CharClass [0x2C] True), decimal_re = Some (CharClass [0x2E] False),
        numeral_re = Some (CharClass (ascii ''0123456789'') True),
        index = Some (indexMap (map (\<lambda>c. [c]) (ascii ''0123456789'')))\<rparr>
     (ascii '', ,'') = ascii '' ''"
  by (simp add: eval_cleaned)

subsection \<open>The descriptor across a change of locale\<close>

text \<open>
  C4. The claim: the descriptor is recomputed whenever the locale tag changes, so
  that parse always uses the separators and numerals of the current locale. The
  effect that derives it has the dependency list \<open>[]\<close>: mounted under \<open>en-US\<close> and
  rendered again under \<open>de-DE\<close>, the hook keeps the \<open>en-US\<close> descriptor, which is not
  the \<open>de-DE\<close> one, and parses the German \<open>1.234,5\<close> as 1.2345, where a hook mounted under
  \<open>de-DE\<close> gives 1234.5.
\<close>

theorem stale_descriptor_after_locale_change:
  "Option.bind (mountParser exampleIntl ''en-US'') (rerender exampleIntl ''de-DE'')
     = mountParser exampleIntl ''en-US''
   \<and> map_option (\<lambda>h. group_re (numberDataRef h))
       (Option.bind (mountParser exampleIntl ''en-US'') (rerender exampleIntl ''de-DE''))
     \<noteq> map_option (\<lambda>h. group_re (numberDataRef h)) (mountParser exampleIntl ''de-DE'')
   \<and> map_option (\<lambda>h. hookParse h (ascii ''1.234,5''))
       (Option.bind (mountParser exampleIntl ''en-US'') (rerender exampleIntl ''de-DE''))
     = Some (Finite (2469 / 2000))
   \<and> map_option (\<lambda>h. hookParse h (ascii ''1.234,5'')) (mountParser exampleIntl ''de-DE'')
     = Some (Finite (2469 / 2))"
  by (simp add: mount_enUS mount_deDE rerender_def effectDeps_def hookParse_def parse_def
      cleaned_enUS_1_234_5 cleaned_deDE_1_234_5 toNumber_1_2345 toNumber_1234_5)
    (simp add: ascii_simps)

subsection \<open>Empty and blank input\<close>

text \<open>
  C6. For every state of the descriptor, also the one before the effect has run:
  parse of the empty string is \<open>NaN\<close>; parse of a string of white space only is \<open>NaN\<close>;
  parse of a string whose cleaned form is empty is \<open>NaN\<close>, not 0; and parse, which
  raises nothing, is \<open>NaN\<close> exactly when the cleaned string is empty or is not a numeric
  literal.
\<close>

theorem parse_empty_is_NaN:
  "parse nd [] = NaN
   \<and> (list_all isWhiteSpace v \<longrightarrow> parse nd v = NaN)
   \<and> (cleaned nd v = [] \<longrightarrow> parse nd v = NaN)
   \<and> (parse nd v = NaN \<longleftrightarrow> cleaned nd v = [] \<or> toNumber (cleaned nd v) = NaN)"
  using cleaned_whitespace[of v nd] cleaned_whitespace[of "[]" nd]
  by (auto simp: parse_def)

theorem parse_empty_is_NaN_witness:
  "list_all isWhiteSpace (ascii ''   '')
   \<and> parse initialNumberData (ascii ''   '') = NaN
   \<and> map_option (\<lambda>h. hookParse h (ascii ''   '')) (mountParser exampleIntl ''en-US'')
      = Some NaN
   \<and> parse initialNumberData [] = NaN"
  using parse_empty_is_NaN[of initialNumberData "ascii ''   ''"]
    parse_empty_is_NaN
      [of "\<lparr>group_re = Some (CharClass [0x2C] True), decimal_re = Some (CharClass [0x2E] False),
        numeral_re = Some (CharClass (ascii ''0123456789'') True),
        index = Some (indexMap (map (\<lambda>c. [c]) (ascii ''0123456789'')))\<rparr>" "ascii ''   ''"]
  by (simp add: isWhiteSpace_def ascii_simps mount_enUS hookParse_def)

text \<open>
  A cleaned string of white space only is not empty, and is a numeric literal for the
  unary plus: under \<open>en-US\<close>, \<open>", ,"\<close> is cleaned to one space and parsed as 0.
\<close>

lemma parse_commas_is_zero:
  "map_option (\<lambda>h. hookParse h (ascii '', ,'')) (mountParser exampleIntl ''en-US'')
     = Some (Finite 0)"
  by (simp add: mount_enUS hookParse_def parse_def cleaned_enUS_commas toNumber_space)
    (simp add: ascii_simps)

subsection \<open>Round trip\<close>




subsection \<open>Numerals outside the Basic Multilingual Plane\<close>

text \<open>
  The numeral class is built without the \<open>u\<close> flag, so it matches one surrogate at a
  time, while the keys of the index are whole code points: under Adlam numerals the
  digit five (U+1E955) is cleaned to \<open>"undefinedundefined"\<close> and parsed as \<open>NaN\<close>. The
  round trip above is stated for numerals of one code unit.
\<close>

lemma toNumber_undefined_twice: "toNumber (ascii ''undefinedundefined'') = NaN"
  by (simp add: eval_toNumber)

lemma astral_numerals_not_parsed:
  "map_option (\<lambda>h. cleaned (numberDataRef h) (adlamDigit 5)) (mountParser adlamIntl ''ff-Adlm'')
     = Some (ascii ''undefinedundefined'')
   \<and> map_option (\<lambda>h. hookParse h (adlamDigit 5)) (mountParser adlamIntl ''ff-Adlm'')
     = Some NaN"
proof -
  have c: "map_option (\<lambda>h. cleaned (numberDataRef h) (adlamDigit 5))
      (mountParser adlamIntl ''ff-Adlm'') = Some (ascii ''undefinedundefined'')"
    by (simp add: mountParser_def runEffect_def deriveNumberData_def adlamIntl_def
        adlamDigit_def charClass_def classMeta_def initialNumberData_def upt_conv_Cons
        eval_cleaned)
  then obtain h where h: "mountParser adlamIntl ''ff-Adlm'' = Some h"
    "cleaned (numberDataRef h) (adlamDigit 5) = ascii ''undefinedundefined''"
    by auto
  have "hookParse h (adlamDigit 5) = NaN"
    unfolding hookParse_def parse_def h(2) toNumber_undefined_twice by simp
  then show ?thesis using c h(1) by simp
qed

end
